theory Spec2Isabelle
  imports Main "HOL-Library.AList"
begin

section \<open>The tensorboard \<open>__main__\<close> module\<close>

text \<open>
  The program is the module \<^verbatim>\<open>tensorboard/__main__.py\<close>:
  \<^verbatim>\<open>
  """Module that allows the user to run `python -m tensorboard`."""     (line 15)
  from __future__ import absolute_import                               (line 17)
  from __future__ import division                                      (line 18)
  from __future__ import print_function                                (line 19)
  from tensorboard import main as _main                                (line 21)
  run_main = _main.run_main                                            (line 23)
  del _main                                                            (line 25)
  if __name__ == '__main__':                                           (line 27)
    run_main()                                                         (line 28)
  \<close>
  Its body is a sequence of statements acting on the module namespace. Each statement
  is embedded as a function from the state to an outcome and the state reached; a raised
  exception ends the body with the state in which it was raised.
\<close>

subsection \<open>Values and exceptions\<close>

text \<open>
  The objects the module can meet: \<open>None\<close>, integers, strings, the feature objects of
  \<open>__future__\<close>, function objects (named by an identifier; what a call does is given by
  the environment) and module objects (a name and the attributes, in order).
\<close>

datatype pyval =
    PyNone
  | PyInt int
  | PyStr string
  | PyFeature string
  | PyFunc nat
  | PyModule string "(string \<times> pyval) list"

datatype exn =
    ImportError string
  | AttributeError string
  | NameError string
  | TypeError string
  | SystemExit pyval
  | Exception string

subsection \<open>State and environment\<close>

text \<open>
  \<open>globals\<close> is the module namespace, a dictionary in insertion order;
  \<open>calls\<close> is the sequence of calls the module body has made, each with the callee and
  the argument list; \<open>world\<close> is everything outside the module, which only the import
  machinery and the called functions change.
\<close>

record 'w state =
  globals :: "(string \<times> pyval) list"
  calls :: "(pyval \<times> pyval list) list"
  world :: 'w

text \<open>
  The environment is what the module does not define itself: the builtins namespace, the
  import machinery (\<open>import_from env pkg name\<close> is \<^verbatim>\<open>from pkg import name\<close>) and the
  behaviour of each function object on an argument list.
\<close>

record 'w env =
  builtins :: "(string \<times> pyval) list"
  import_from :: "string \<Rightarrow> string \<Rightarrow> 'w \<Rightarrow> (exn + pyval) \<times> 'w"
  behaviour :: "nat \<Rightarrow> pyval list \<Rightarrow> 'w \<Rightarrow> (exn + pyval) \<times> 'w"

type_synonym ('w, 'a) py = "'w state \<Rightarrow> (exn + 'a) \<times> 'w state"

definition py_return :: "'a \<Rightarrow> ('w, 'a) py" where
  "py_return x s = (Inr x, s)"

definition py_bind :: "('w, 'a) py \<Rightarrow> ('a \<Rightarrow> ('w, 'b) py) \<Rightarrow> ('w, 'b) py" where
  "py_bind m f s = (case m s of (Inl e, s') \<Rightarrow> (Inl e, s') | (Inr x, s') \<Rightarrow> f x s')"

subsection \<open>Name and attribute operations\<close>

text \<open>\<^verbatim>\<open>name = v\<close> at module level: an existing key keeps its place, a new one goes last.\<close>

definition store_name :: "string \<Rightarrow> pyval \<Rightarrow> ('w, unit) py" where
  "store_name n v s = (Inr (), s\<lparr>globals := AList.update n v (globals s)\<rparr>)"

text \<open>Reading a name at module level: the module namespace, then the builtins, else \<open>NameError\<close>.\<close>

definition load_name :: "'w env \<Rightarrow> string \<Rightarrow> ('w, pyval) py" where
  "load_name env n s =
     (case map_of (globals s) n of
        Some v \<Rightarrow> (Inr v, s)
      | None \<Rightarrow>
          (case map_of (builtins env) n of
             Some v \<Rightarrow> (Inr v, s)
           | None \<Rightarrow> (Inl (NameError n), s)))"

text \<open>\<^verbatim>\<open>del name\<close> at module level: \<open>NameError\<close> when the name is not bound.\<close>

definition delete_name :: "string \<Rightarrow> ('w, unit) py" where
  "delete_name n s =
     (case map_of (globals s) n of
        Some v \<Rightarrow> (Inr (), s\<lparr>globals := AList.delete n (globals s)\<rparr>)
      | None \<Rightarrow> (Inl (NameError n), s))"

text \<open>\<^verbatim>\<open>v.a\<close>: only module objects carry attributes here.\<close>

definition get_attr :: "pyval \<Rightarrow> string \<Rightarrow> exn + pyval" where
  "get_attr v a =
     (case v of
        PyModule nm attrs \<Rightarrow>
          (case map_of attrs a of Some x \<Rightarrow> Inr x | None \<Rightarrow> Inl (AttributeError a))
      | _ \<Rightarrow> Inl (AttributeError a))"

text \<open>
  \<^verbatim>\<open>f(args)\<close>: a function object runs its behaviour on the world and the call is
  recorded; any other object is not callable.
\<close>

definition call :: "'w env \<Rightarrow> pyval \<Rightarrow> pyval list \<Rightarrow> ('w, pyval) py" where
  "call env f args s =
     (case f of
        PyFunc i \<Rightarrow>
          (case behaviour env i args (world s) of
             (r, w') \<Rightarrow> (r, s\<lparr>calls := calls s @ [(f, args)], world := w'\<rparr>))
      | _ \<Rightarrow> (Inl (TypeError ''object is not callable''), s))"

text \<open>\<^verbatim>\<open>from pkg import name\<close>, the value not yet bound.\<close>

definition import_name :: "'w env \<Rightarrow> string \<Rightarrow> string \<Rightarrow> ('w, pyval) py" where
  "import_name env pkg n s =
     (case import_from env pkg n (world s) of (r, w') \<Rightarrow> (r, s\<lparr>world := w'\<rparr>))"

subsection \<open>The statements of the module\<close>

text \<open>Line 15: the docstring, stored as \<open>__doc__\<close>.\<close>

definition docstring :: string where
  "docstring = ''Module that allows the user to run `python -m tensorboard`.''"

definition stmt_doc :: "('w, unit) py" where
  "stmt_doc = store_name ''__doc__'' (PyStr docstring)"

text \<open>
  Lines 17 to 19: \<^verbatim>\<open>from __future__ import f\<close>. Beside what it tells the compiler,
  the statement is an import like any other, executed at run time: the import machinery
  loads \<open>__future__\<close> (which changes the world, and can fail), and \<open>f\<close> is bound to the
  object it gives.
\<close>

definition import_future :: "'w env \<Rightarrow> string \<Rightarrow> ('w, unit) py" where
  "import_future env f = py_bind (import_name env ''__future__'' f) (store_name f)"

text \<open>Line 21: \<^verbatim>\<open>from tensorboard import main as _main\<close>.\<close>

definition stmt_import_main :: "'w env \<Rightarrow> ('w, unit) py" where
  "stmt_import_main env =
     py_bind (import_name env ''tensorboard'' ''main'') (store_name ''_main'')"

text \<open>Line 23: \<^verbatim>\<open>run_main = _main.run_main\<close>.\<close>

definition stmt_bind_run_main :: "'w env \<Rightarrow> ('w, unit) py" where
  "stmt_bind_run_main env =
     py_bind (load_name env ''_main'')
       (\<lambda>m. py_bind (\<lambda>s. (get_attr m ''run_main'', s)) (store_name ''run_main''))"

text \<open>Line 25: \<^verbatim>\<open>del _main\<close>.\<close>

definition stmt_del_main :: "('w, unit) py" where
  "stmt_del_main = delete_name ''_main''"

text \<open>
  Line 28: the expression statement \<^verbatim>\<open>run_main()\<close>, written for any name: the name is
  read, the object called with no arguments, and the value of the call dropped.
\<close>

definition invoke_name :: "'w env \<Rightarrow> string \<Rightarrow> ('w, pyval) py" where
  "invoke_name env n = py_bind (load_name env n) (\<lambda>f. call env f [])"

definition stmt_expr :: "('w, pyval) py \<Rightarrow> ('w, unit) py" where
  "stmt_expr e = py_bind e (\<lambda>v. py_return ())"

text \<open>Lines 27 and 28: \<^verbatim>\<open>if __name__ == '__main__': run_main()\<close>.\<close>

definition stmt_guard :: "'w env \<Rightarrow> ('w, unit) py" where
  "stmt_guard env =
     py_bind (load_name env ''__name__'')
       (\<lambda>n. if n = PyStr ''__main__''
            then stmt_expr (invoke_name env ''run_main'')
            else py_return ())"

subsection \<open>The module body\<close>

text \<open>A block runs its statements in order and stops at the first exception.\<close>

fun exec_block :: "('w, unit) py list \<Rightarrow> ('w, unit) py" where
  "exec_block [] s = (Inr (), s)"
| "exec_block (c # cs) s =
     (case c s of (Inl e, s') \<Rightarrow> (Inl e, s') | (Inr u, s') \<Rightarrow> exec_block cs s')"

definition module_body :: "'w env \<Rightarrow> ('w, unit) py" where
  "module_body env =
     exec_block
       [stmt_doc,
        import_future env ''absolute_import'',
        import_future env ''division'',
        import_future env ''print_function'',
        stmt_import_main env,
        stmt_bind_run_main env,
        stmt_del_main,
        stmt_guard env]"

text \<open>
  The interpreter's rule for the status of the process once the body of the module run as
  \<open>__main__\<close> has ended: 0 when the body ends normally; for \<open>SystemExit\<close> the integer it
  carries, of which the process keeps the low eight bits (256 gives 0, -1 gives 255), 0 for
  \<open>None\<close> and 1 for any other object; 1 for any other exception.
\<close>

definition exit_status :: "exn + unit \<Rightarrow> int" where
  "exit_status r =
     (case r of
        Inr u \<Rightarrow> 0
      | Inl (SystemExit PyNone) \<Rightarrow> 0
      | Inl (SystemExit (PyInt n)) \<Rightarrow> n mod 256
      | Inl e \<Rightarrow> 1)"

text \<open>
  The names a module offers to \<^verbatim>\<open>from m import *\<close> when it defines no \<open>__all__\<close>:
  those of its namespace that do not begin with an underscore.
\<close>

definition is_public :: "string \<Rightarrow> bool" where
  "is_public n = (case n of [] \<Rightarrow> True | c # cs \<Rightarrow> c \<noteq> CHR ''_'')"

definition public_names :: "(string \<times> pyval) list \<Rightarrow> string list" where
  "public_names g = filter is_public (map fst g)"

subsection \<open>Concrete runs\<close>

text \<open>
  A collaborator whose module \<open>tensorboard.main\<close> holds the function 0 as \<open>run_main\<close>
  (beside another attribute); the world counts the effects: each import adds 1, a call of
  function 0 adds 10. \<open>__future__\<close> gives its feature objects. The parameter \<open>r\<close> is
  what a call of function 0 gives: a returned value or a raised exception.
\<close>

definition main_module :: pyval where
  "main_module = PyModule ''tensorboard.main'' [(''FLAGS'', PyNone), (''run_main'', PyFunc 0)]"

definition env_with :: "(exn + pyval) \<Rightarrow> nat env" where
  "env_with r =
     \<lparr>builtins = [(''__name__'', PyStr ''builtins'')],
      import_from = (\<lambda>pkg n w.
         if pkg = ''__future__'' then (Inr (PyFeature n), w + 1)
         else if pkg = ''tensorboard'' \<and> n = ''main'' then (Inr main_module, w + 1)
         else (Inl (ImportError n), w)),
      behaviour = (\<lambda>i args w. if i = 0 \<and> args = [] then (r, w + 10) else (Inl (TypeError ''arguments''), w))\<rparr>"

text \<open>An environment in which the collaborator cannot be loaded.\<close>

definition env_missing :: "nat env" where
  "env_missing =
     \<lparr>builtins = [(''__name__'', PyStr ''builtins'')],
      import_from = (\<lambda>pkg n w.
         if pkg = ''__future__'' then (Inr (PyFeature n), w + 1)
         else (Inl (ImportError n), w)),
      behaviour = (\<lambda>i args w. (Inr PyNone, w + 10))\<rparr>"

text \<open>
  A second collaborator: its module holds the same function as \<open>run_main\<close> among other
  attributes, and the builtins hold more names.
\<close>

definition other_module :: pyval where
  "other_module = PyModule ''tensorboard.main'' [(''run_main'', PyFunc 0), (''VERSION'', PyInt 2)]"

definition env_other :: "(exn + pyval) \<Rightarrow> nat env" where
  "env_other r =
     \<lparr>builtins = [(''len'', PyFunc 7), (''__name__'', PyStr ''builtins'')],
      import_from = (\<lambda>pkg n w.
         if pkg = ''__future__'' then (Inr (PyFeature n), w + 1)
         else if pkg = ''tensorboard'' \<and> n = ''main'' then (Inr other_module, w + 1)
         else (Inl (ImportError n), w)),
      behaviour = (\<lambda>i args w. if i = 0 \<and> args = [] then (r, w + 10) else (Inl (TypeError ''arguments''), w))\<rparr>"

text \<open>The state in which the import system starts the body of a module named \<open>nm\<close>.\<close>

definition initial_state :: "string \<Rightarrow> nat state" where
  "initial_state nm =
     \<lparr>globals = [(''__name__'', PyStr nm), (''__doc__'', PyNone), (''__package__'', PyStr ''tensorboard'')],
      calls = [],
      world = 0\<rparr>"

subsection \<open>Auxiliary notions\<close>

text \<open>
  The call \<^verbatim>\<open>m.a()\<close> made on an object directly: on the collaborator's module with
  \<open>a = run_main\<close> it is the collaborator's entry point, invoked without the shim.
\<close>

definition invoke_attr :: "'w env \<Rightarrow> pyval \<Rightarrow> string \<Rightarrow> ('w, pyval) py" where
  "invoke_attr env m a = py_bind (\<lambda>s. (get_attr m a, s)) (\<lambda>f. call env f [])"

text \<open>The namespace once lines 15 to 19 have run, and once lines 21 to 25 have run.\<close>

definition prelude :: "(string \<times> pyval) list \<Rightarrow> (string \<times> pyval) list" where
  "prelude g =
     AList.update ''print_function'' (PyFeature ''print_function'')
       (AList.update ''division'' (PyFeature ''division'')
          (AList.update ''absolute_import'' (PyFeature ''absolute_import'')
             (AList.update ''__doc__'' (PyStr docstring) g)))"

definition initialised :: "pyval \<Rightarrow> pyval \<Rightarrow> (string \<times> pyval) list \<Rightarrow> (string \<times> pyval) list" where
  "initialised m v g =
     AList.delete ''_main'' (AList.update ''run_main'' v (AList.update ''_main'' m (prelude g)))"

section \<open>How the body runs\<close>

lemma outcome_case_id:
  "(case p of (Inl e, s') \<Rightarrow> (Inl e, s') | (Inr u, s') \<Rightarrow> exec_block [] s') = p"
  by (cases p) (auto split: sum.splits)

text \<open>
  In the lemmas and theorems below, the imports of lines 17 to 19 succeed and give the
  feature objects, taking the world from \<open>world s\<close> through \<open>w1\<close> and \<open>w2\<close> to \<open>w3\<close>.
\<close>

text \<open>The import of line 21 fails: the body ends there.\<close>

lemma body_import_fails:
  assumes "import_from env ''__future__'' ''absolute_import'' (world s) =
      (Inr (PyFeature ''absolute_import''), w1)"
    and "import_from env ''__future__'' ''division'' w1 = (Inr (PyFeature ''division''), w2)"
    and "import_from env ''__future__'' ''print_function'' w2 =
      (Inr (PyFeature ''print_function''), w3)"
    and "import_from env ''tensorboard'' ''main'' w3 = (Inl e, w')"
  shows "module_body env s =
     (Inl e, \<lparr>globals = prelude (globals s), calls = calls s, world = w'\<rparr>)"
  using assms
  by (cases s) (simp add: module_body_def stmt_doc_def import_future_def store_name_def
      stmt_import_main_def py_bind_def import_name_def prelude_def)

text \<open>The import succeeds and the attribute of line 23 is missing: the body ends there.\<close>

lemma body_attr_fails:
  assumes "import_from env ''__future__'' ''absolute_import'' (world s) =
      (Inr (PyFeature ''absolute_import''), w1)"
    and "import_from env ''__future__'' ''division'' w1 = (Inr (PyFeature ''division''), w2)"
    and "import_from env ''__future__'' ''print_function'' w2 =
      (Inr (PyFeature ''print_function''), w3)"
    and "import_from env ''tensorboard'' ''main'' w3 = (Inr m, w')"
    and "get_attr m ''run_main'' = Inl e"
  shows "module_body env s =
     (Inl e, \<lparr>globals = AList.update ''_main'' m (prelude (globals s)), calls = calls s, world = w'\<rparr>)"
  using assms
  by (cases s) (simp add: module_body_def stmt_doc_def import_future_def store_name_def
      stmt_import_main_def stmt_bind_run_main_def load_name_def
      py_bind_def import_name_def prelude_def update_conv')

text \<open>Both succeed: what is left is the guard of line 27, run in the initialised namespace.\<close>

lemma body_init_ok:
  assumes "import_from env ''__future__'' ''absolute_import'' (world s) =
      (Inr (PyFeature ''absolute_import''), w1)"
    and "import_from env ''__future__'' ''division'' w1 = (Inr (PyFeature ''division''), w2)"
    and "import_from env ''__future__'' ''print_function'' w2 =
      (Inr (PyFeature ''print_function''), w3)"
    and "import_from env ''tensorboard'' ''main'' w3 = (Inr m, w')"
    and "get_attr m ''run_main'' = Inr v"
  shows "module_body env s =
     stmt_guard env \<lparr>globals = initialised m v (globals s), calls = calls s, world = w'\<rparr>"
  using assms
  by (cases s) (simp add: module_body_def stmt_doc_def import_future_def store_name_def
      stmt_import_main_def stmt_bind_run_main_def stmt_del_main_def delete_name_def load_name_def
      py_bind_def import_name_def prelude_def initialised_def update_conv' outcome_case_id)

lemma map_of_prelude:
  "map_of (prelude g) =
     (map_of g)(''__doc__'' \<mapsto> PyStr docstring,
                ''absolute_import'' \<mapsto> PyFeature ''absolute_import'',
                ''division'' \<mapsto> PyFeature ''division'',
                ''print_function'' \<mapsto> PyFeature ''print_function'')"
  by (simp add: prelude_def update_conv')

lemma map_of_initialised:
  "map_of (initialised m v g) =
     (map_of g)(''__doc__'' \<mapsto> PyStr docstring,
                ''absolute_import'' \<mapsto> PyFeature ''absolute_import'',
                ''division'' \<mapsto> PyFeature ''division'',
                ''print_function'' \<mapsto> PyFeature ''print_function'',
                ''run_main'' \<mapsto> v,
                ''_main'' := None)"
  by (simp add: initialised_def update_conv' delete_conv' map_of_prelude)

lemma guard_library:
  assumes "map_of (globals s) ''__name__'' = Some n" and "n \<noteq> PyStr ''__main__''"
  shows "stmt_guard env s = (Inr (), s)"
  using assms by (simp add: stmt_guard_def py_bind_def load_name_def py_return_def)

lemma guard_direct:
  assumes "map_of (globals s) ''__name__'' = Some (PyStr ''__main__'')"
    and "map_of (globals s) ''run_main'' = Some (PyFunc f)"
    and "behaviour env f [] (world s) = (r, w')"
  shows "stmt_guard env s =
     (map_sum id (\<lambda>v. ()) r,
      \<lparr>globals = globals s, calls = calls s @ [(PyFunc f, [])], world = w'\<rparr>)"
  using assms
  by (cases r; cases s)
    (simp_all add: stmt_guard_def stmt_expr_def invoke_name_def call_def py_bind_def
      load_name_def py_return_def)

lemma call_globals: "globals (snd (call env f args s)) = globals s"
  by (cases s) (simp add: call_def split: pyval.splits prod.splits)

lemma invoke_globals: "globals (snd (invoke_name env n s)) = globals s"
proof (cases "load_name env n s")
  case (Pair r t)
  then have t: "t = s"
    by (auto simp: load_name_def split: option.splits)
  show ?thesis
    using Pair call_globals [of env _ "[]" s]
    by (cases r) (simp_all add: invoke_name_def py_bind_def t)
qed

lemma guard_globals: "globals (snd (stmt_guard env s)) = globals s"
proof (cases "load_name env ''__name__'' s")
  case (Pair r t)
  then have t: "t = s"
    by (auto simp: load_name_def split: option.splits)
  show ?thesis
  proof (cases r)
    case (Inl e)
    with Pair show ?thesis by (simp add: stmt_guard_def py_bind_def t)
  next
    case (Inr n)
    obtain q u where q: "invoke_name env ''run_main'' s = (q, u)"
      by (cases "invoke_name env ''run_main'' s")
    with invoke_globals [of env "''run_main''" s] have "globals u = globals s" by simp
    with Pair Inr q show ?thesis
      by (cases q) (simp_all add: stmt_guard_def stmt_expr_def py_bind_def py_return_def t)
  qed
qed

lemma body_init_globals:
  assumes "import_from env ''__future__'' ''absolute_import'' (world s) =
      (Inr (PyFeature ''absolute_import''), w1)"
    and "import_from env ''__future__'' ''division'' w1 = (Inr (PyFeature ''division''), w2)"
    and "import_from env ''__future__'' ''print_function'' w2 =
      (Inr (PyFeature ''print_function''), w3)"
    and "import_from env ''tensorboard'' ''main'' w3 = (Inr m, w')"
    and "get_attr m ''run_main'' = Inr v"
  shows "globals (snd (module_body env s)) = initialised m v (globals s)"
  by (simp add: body_init_ok [OF assms] guard_globals)

text \<open>An attribute of a module object is a smaller object than the module.\<close>

lemma attr_smaller:
  assumes "get_attr m a = Inr v"
  shows "size v < size m"
proof (cases m)
  case (PyModule nm attrs)
  with assms have "map_of attrs a = Some v"
    by (simp add: get_attr_def split: option.splits)
  then have "(a, v) \<in> set attrs"
    by (rule map_of_SomeD)
  then have "size_prod (\<lambda>x. 0) size (a, v) \<le> size_list (size_prod (\<lambda>x. 0) size) attrs"
    by (rule size_list_estimation') simp
  with PyModule show ?thesis by simp
qed (use assms in \<open>simp_all add: get_attr_def\<close>)

lemma attr_not_self: "get_attr m a = Inr v \<Longrightarrow> v \<noteq> m"
  using attr_smaller by fastforce

lemma attr_is_module: "get_attr m a = Inr v \<Longrightarrow> \<exists>nm attrs. m = PyModule nm attrs"
  by (cases m) (simp_all add: get_attr_def)

lemma values_update: "snd ` set (AList.update k v al) \<subseteq> insert v (snd ` set al)"
  by (induction al) auto

lemma values_delete: "snd ` set (AList.delete k al) \<subseteq> snd ` set al"
  by (induction al) auto

lemma keys_delete: "fst ` set (AList.delete k al) = fst ` set al - {k}"
  by (induction al) auto

lemma public_names_set: "set (public_names g) = {n \<in> fst ` set g. is_public n}"
  by (auto simp: public_names_def)

subsection \<open>Namespaces\<close>

lemma values_prelude: "snd ` set (prelude g) \<subseteq>
    {PyStr docstring, PyFeature ''absolute_import'', PyFeature ''division'', PyFeature ''print_function''}
      \<union> snd ` set g"
  unfolding prelude_def
  using values_update [of "''print_function''" "PyFeature ''print_function''"]
    values_update [of "''division''" "PyFeature ''division''"]
    values_update [of "''absolute_import''" "PyFeature ''absolute_import''"]
    values_update [of "''__doc__''" "PyStr docstring" g]
  by blast


lemma delete_update_other:
  "k \<noteq> k' \<Longrightarrow> AList.delete k (AList.update k' v al) = AList.update k' v (AList.delete k al)"
  by (induction al) auto

lemma delete_update_same: "AList.delete k (AList.update k v al) = AList.delete k al"
  by (induction al) auto

lemma initialised_alt:
  "initialised m v g = AList.update ''run_main'' v (AList.delete ''_main'' (prelude g))"
  by (simp add: initialised_def delete_update_other delete_update_same)

lemma values_initialised:
  "snd ` set (initialised m v g) \<subseteq>
     {v, PyStr docstring, PyFeature ''absolute_import'', PyFeature ''division'', PyFeature ''print_function''}
       \<union> snd ` set g"
  unfolding initialised_alt
  using values_update [of "''run_main''" v "AList.delete ''_main'' (prelude g)"]
    values_delete [of "''_main''" "prelude g"] values_prelude [of g]
  by blast

lemma keys_initialised:
  "fst ` set (initialised m v g) =
     ({''__doc__'', ''absolute_import'', ''division'', ''print_function'', ''run_main''}
        \<union> fst ` set g) - {''_main''}"
  by (auto simp add: initialised_def prelude_def keys_delete dom_update)

lemma invoke_bound:
  assumes "map_of (globals t) n = Some v"
  shows "invoke_name env n t = call env v [] t"
  using assms by (simp add: invoke_name_def py_bind_def load_name_def)

lemma public_fixed:
  "is_public ''absolute_import''" "is_public ''division''" "is_public ''print_function''"
  "is_public ''run_main''" "\<not> is_public ''__doc__''" "\<not> is_public ''_main''"
  by (simp_all add: is_public_def)

lemma filter_keys:
  assumes "P k2" "P k3" "P k4" "P k5" "\<not> P k1" "\<not> P d"
  shows "{n \<in> ({k1, k2, k3, k4, k5} \<union> A) - {d}. P n} = {n \<in> A. P n} \<union> {k2, k3, k4, k5}"
  using assms by auto

lemma public_names_initialised:
  "set (public_names (initialised m v g)) =
     set (public_names g) \<union> {''absolute_import'', ''division'', ''print_function'', ''run_main''}"
  unfolding public_names_set keys_initialised
  by (rule filter_keys) (rule public_fixed)+

lemma public_names_concrete:
  "public_names (initialised main_module (PyFunc 0) (globals (initial_state ''tensorboard.__main__'')))
     = [''absolute_import'', ''division'', ''print_function'', ''run_main'']"
  by (simp add: initialised_def prelude_def initial_state_def public_names_def is_public_def)

lemma invoke_attr_ok:
  assumes "get_attr m a = Inr v"
  shows "invoke_attr env m a t = call env v [] t"
  using assms by (simp add: invoke_attr_def py_bind_def)

lemma call_env_cong:
  assumes "behaviour env1 = behaviour env2"
  shows "call env1 f args t = call env2 f args t"
  using assms by (cases f) (simp_all add: call_def)

lemma guard_env_cong:
  assumes "map_of (builtins env1) ''__name__'' = map_of (builtins env2) ''__name__''"
    and "behaviour env1 = behaviour env2"
    and "map_of (globals t) ''run_main'' = Some v"
  shows "stmt_guard env1 t = stmt_guard env2 t"
proof -
  have nm: "load_name env1 ''__name__'' t = load_name env2 ''__name__'' t"
    using assms(1) by (cases "map_of (globals t) ''__name__''") (simp_all add: load_name_def)
  have "invoke_name env1 ''run_main'' t = call env1 v [] t"
    using assms(3) by (rule invoke_bound)
  also have "\<dots> = call env2 v [] t"
    using assms(2) by (rule call_env_cong)
  also have "\<dots> = invoke_name env2 ''run_main'' t"
    using assms(3) by (rule invoke_bound [symmetric])
  finally have inv: "invoke_name env1 ''run_main'' t = invoke_name env2 ''run_main'' t" .
  obtain r t' where l: "load_name env2 ''__name__'' t = (r, t')"
    by (cases "load_name env2 ''__name__'' t")
  then have t': "t' = t"
    by (auto simp: load_name_def split: option.splits)
  show ?thesis
    using l nm inv
    by (cases r) (simp_all add: stmt_guard_def stmt_expr_def py_bind_def t')
qed

subsection \<open>Statements that make no call\<close>

text \<open>
  Lines 15 to 25 make no call and leave the binding of \<open>__name__\<close> as it is, whether
  they succeed or fail.
\<close>

lemma store_quiet:
  "calls (snd (store_name k v t)) = calls t \<and>
   (k \<noteq> ''__name__'' \<longrightarrow>
      map_of (globals (snd (store_name k v t))) ''__name__'' = map_of (globals t) ''__name__'')"
  by (simp add: store_name_def update_conv')

lemma import_name_quiet:
  "calls (snd (import_name env pkg k t)) = calls t \<and>
   globals (snd (import_name env pkg k t)) = globals t"
  by (cases "import_from env pkg k (world t)") (simp add: import_name_def)

lemma import_store_quiet:
  assumes "k \<noteq> ''__name__''"
  shows "calls (snd (py_bind (import_name env pkg f) (store_name k) t)) = calls t \<and>
    map_of (globals (snd (py_bind (import_name env pkg f) (store_name k) t))) ''__name__'' =
      map_of (globals t) ''__name__''"
proof (cases "import_name env pkg f t")
  case (Pair r t')
  with import_name_quiet [of env pkg f t]
  have t': "calls t' = calls t" "globals t' = globals t"
    by simp_all
  show ?thesis
  proof (cases r)
    case (Inl e)
    with Pair t' show ?thesis by (simp add: py_bind_def)
  next
    case (Inr v)
    with Pair t' assms store_quiet [of k v t'] show ?thesis
      by (simp add: py_bind_def)
  qed
qed

lemma doc_quiet:
  "calls (snd (stmt_doc t)) = calls t \<and>
   map_of (globals (snd (stmt_doc t))) ''__name__'' = map_of (globals t) ''__name__''"
  using store_quiet [of "''__doc__''" "PyStr docstring" t] by (simp add: stmt_doc_def)

lemma future_quiet:
  assumes "f \<noteq> ''__name__''"
  shows "calls (snd (import_future env f t)) = calls t \<and>
    map_of (globals (snd (import_future env f t))) ''__name__'' = map_of (globals t) ''__name__''"
  unfolding import_future_def using assms by (rule import_store_quiet)

lemma import_main_quiet:
  "calls (snd (stmt_import_main env t)) = calls t \<and>
   map_of (globals (snd (stmt_import_main env t))) ''__name__'' = map_of (globals t) ''__name__''"
  unfolding stmt_import_main_def by (rule import_store_quiet) simp

lemma bind_run_main_quiet:
  "calls (snd (stmt_bind_run_main env t)) = calls t \<and>
   map_of (globals (snd (stmt_bind_run_main env t))) ''__name__'' = map_of (globals t) ''__name__''"
proof (cases "load_name env ''_main'' t")
  case (Pair r t')
  then have t': "t' = t"
    by (auto simp: load_name_def split: option.splits)
  show ?thesis
  proof (cases r)
    case (Inl e)
    with Pair show ?thesis by (simp add: stmt_bind_run_main_def py_bind_def t')
  next
    case (Inr m)
    show ?thesis
    proof (cases "get_attr m ''run_main''")
      case (Inl e)
      with Pair Inr show ?thesis by (simp add: stmt_bind_run_main_def py_bind_def t')
    next
      case attr: (Inr v)
      with Pair Inr store_quiet [of "''run_main''" v t] show ?thesis
        by (simp add: stmt_bind_run_main_def py_bind_def t')
    qed
  qed
qed

lemma del_main_quiet:
  "calls (snd (stmt_del_main t)) = calls t \<and>
   map_of (globals (snd (stmt_del_main t))) ''__name__'' = map_of (globals t) ''__name__''"
  by (cases "map_of (globals t) ''_main''")
    (simp_all add: stmt_del_main_def delete_name_def delete_conv')

lemma exec_block_then_guard:
  assumes quiet: "\<And>c t. c \<in> set cs \<Longrightarrow>
      calls (snd (c t)) = calls t \<and>
      map_of (globals (snd (c t))) ''__name__'' = map_of (globals t) ''__name__''"
    and name: "map_of (globals s) ''__name__'' = Some n"
    and lib: "n \<noteq> PyStr ''__main__''"
  shows "calls (snd (exec_block (cs @ [stmt_guard env]) s)) = calls s"
  using quiet name
proof (induction cs arbitrary: s)
  case Nil
  then have "stmt_guard env s = (Inr (), s)"
    using lib by (simp add: guard_library)
  then show ?case by simp
next
  case (Cons c cs)
  obtain r t where ct: "c s = (r, t)"
    by (cases "c s")
  from Cons.prems(1) [of c s] ct Cons.prems(2)
  have t: "calls t = calls s" "map_of (globals t) ''__name__'' = Some n"
    by simp_all
  show ?case
  proof (cases r)
    case (Inl e)
    with ct t show ?thesis by simp
  next
    case (Inr u)
    have "calls (snd (exec_block (cs @ [stmt_guard env]) t)) = calls t"
      using Cons.prems(1) t(2) by (intro Cons.IH) simp_all
    with ct Inr t show ?thesis by simp
  qed
qed

text \<open>A library import makes no call, whatever the imports and the attribute lookup do.\<close>

lemma library_import_never_calls:
  assumes "map_of (globals s) ''__name__'' = Some n" and "n \<noteq> PyStr ''__main__''"
  shows "calls (snd (module_body env s)) = calls s"
proof -
  let ?cs = "[stmt_doc, import_future env ''absolute_import'', import_future env ''division'',
      import_future env ''print_function'', stmt_import_main env, stmt_bind_run_main env,
      stmt_del_main]"
  have body: "module_body env = exec_block (?cs @ [stmt_guard env])"
    by (simp add: module_body_def)
  have "calls (snd (c t)) = calls t \<and>
      map_of (globals (snd (c t))) ''__name__'' = map_of (globals t) ''__name__''"
    if "c \<in> set ?cs" for c t
    using that doc_quiet [of t] future_quiet [of _ env t] import_main_quiet [of env t]
      bind_run_main_quiet [of env t] del_main_quiet [of t]
    by auto
  then show ?thesis
    unfolding body using assms by (rule exec_block_then_guard)
qed

subsection \<open>The concrete environments\<close>

lemma env_with_future:
  "import_from (env_with r) ''__future__'' f w = (Inr (PyFeature f), w + 1)"
  by (simp add: env_with_def)

lemma env_with_main:
  "import_from (env_with r) ''tensorboard'' ''main'' w = (Inr main_module, w + 1)"
  by (simp add: env_with_def)

lemma main_module_run_main: "get_attr main_module ''run_main'' = Inr (PyFunc 0)"
  by (simp add: get_attr_def main_module_def)

text \<open>The namespace a body run in \<open>env_with r\<close> leaves.\<close>

lemma env_with_globals:
  "globals (snd (module_body (env_with r) (initial_state nm))) =
     initialised main_module (PyFunc 0) (globals (initial_state nm))"
proof -
  have w0: "world (initial_state nm) = 0"
    by (simp add: initial_state_def)
  show ?thesis
    by (rule body_init_globals [where ?w1.0 = 1 and ?w2.0 = 2 and ?w3.0 = 3 and w' = 4])
      (simp_all add: env_with_future env_with_main main_module_run_main w0)
qed

text \<open>The whole run of the body under direct execution in \<open>env_with r\<close>.\<close>

lemma env_with_direct:
  "module_body (env_with r) (initial_state ''__main__'') =
     (map_sum id (\<lambda>v. ()) r,
      \<lparr>globals = initialised main_module (PyFunc 0) (globals (initial_state ''__main__'')),
        calls = [(PyFunc 0, [])], world = 14\<rparr>)"
proof -
  let ?t = "\<lparr>globals = initialised main_module (PyFunc 0) (globals (initial_state ''__main__'')),
      calls = calls (initial_state ''__main__''), world = 4::nat\<rparr>"
  have w0: "world (initial_state ''__main__'') = 0"
    by (simp add: initial_state_def)
  have beh: "behaviour (env_with r) 0 [] (world ?t) = (r, 14)"
    by (simp add: env_with_def)
  have nm: "map_of (globals ?t) ''__name__'' = Some (PyStr ''__main__'')"
    by (simp add: map_of_initialised initial_state_def)
  have rm: "map_of (globals ?t) ''run_main'' = Some (PyFunc 0)"
    by (simp add: map_of_initialised)
  have "module_body (env_with r) (initial_state ''__main__'') = stmt_guard (env_with r) ?t"
    by (rule body_init_ok [where ?w1.0 = 1 and ?w2.0 = 2 and ?w3.0 = 3])
      (simp_all add: env_with_future env_with_main main_module_run_main w0)
  also note guard_direct [OF nm rm beh]
  finally show ?thesis
    by (simp add: initial_state_def)
qed

section \<open>The claims\<close>

text \<open>
  C1. When the module is the direct execution target (\<open>__name__\<close> is \<open>__main__\<close>) and the
  collaborator provides the function \<open>f\<close> as \<open>run_main\<close>, the body runs \<open>f\<close> exactly
  once, on no arguments, in the world the imports left: the call sequence grows by the one
  entry \<open>(f, [])\<close>, the world is the one that single run of \<open>f\<close> leaves, and the body ends
  as that run ends, with its error if it raises and normally if it returns.
\<close>

theorem direct_execution_invokes_once:
  assumes "map_of (globals s) ''__name__'' = Some (PyStr ''__main__'')"
    and "import_from env ''__future__'' ''absolute_import'' (world s) =
      (Inr (PyFeature ''absolute_import''), w1)"
    and "import_from env ''__future__'' ''division'' w1 = (Inr (PyFeature ''division''), w2)"
    and "import_from env ''__future__'' ''print_function'' w2 =
      (Inr (PyFeature ''print_function''), w3)"
    and "import_from env ''tensorboard'' ''main'' w3 = (Inr m, w4)"
    and "get_attr m ''run_main'' = Inr (PyFunc f)"
    and "behaviour env f [] w4 = (r, w5)"
  shows "calls (snd (module_body env s)) = calls s @ [(PyFunc f, [])]
    \<and> world (snd (module_body env s)) = w5
    \<and> fst (module_body env s) = (case r of Inl e \<Rightarrow> Inl e | Inr v \<Rightarrow> Inr ())"
proof -
  let ?t = "\<lparr>globals = initialised m (PyFunc f) (globals s), calls = calls s, world = w4\<rparr>"
  have beh: "behaviour env f [] (world ?t) = (r, w5)"
    using assms(7) by simp
  have nm: "map_of (globals ?t) ''__name__'' = Some (PyStr ''__main__'')"
    using assms(1) by (simp add: map_of_initialised)
  have rm: "map_of (globals ?t) ''run_main'' = Some (PyFunc f)"
    by (simp add: map_of_initialised)
  have "module_body env s = stmt_guard env ?t"
    using assms(2-6) by (rule body_init_ok)
  also note guard_direct [OF nm rm beh]
  finally show ?thesis
    by (cases r) simp_all
qed

theorem direct_execution_invokes_once_witness:
  "calls (snd (module_body (env_with (Inr PyNone)) (initial_state ''__main__''))) = [(PyFunc 0, [])]
   \<and> world (snd (module_body (env_with (Inr PyNone)) (initial_state ''__main__''))) = 14
   \<and> fst (module_body (env_with (Inr PyNone)) (initial_state ''__main__'')) = Inr ()"
proof -
  have h1: "map_of (globals (initial_state ''__main__'')) ''__name__'' = Some (PyStr ''__main__'')"
    by (simp add: initial_state_def)
  have f1: "import_from (env_with (Inr PyNone)) ''__future__'' ''absolute_import'' (world (initial_state ''__main__'')) =
      (Inr (PyFeature ''absolute_import''), 1)"
    by (simp add: env_with_def initial_state_def)
  have f2: "import_from (env_with (Inr PyNone)) ''__future__'' ''division'' 1 = (Inr (PyFeature ''division''), 2)"
    by (simp add: env_with_def)
  have f3: "import_from (env_with (Inr PyNone)) ''__future__'' ''print_function'' 2 =
      (Inr (PyFeature ''print_function''), 3)"
    by (simp add: env_with_def)
  have hm: "import_from (env_with (Inr PyNone)) ''tensorboard'' ''main'' 3 = (Inr main_module, 4)"
    by (simp add: env_with_def)
  have ha: "get_attr main_module ''run_main'' = Inr (PyFunc 0)"
    by (simp add: get_attr_def main_module_def)
  have hb: "behaviour (env_with (Inr PyNone)) 0 [] 4 = (Inr PyNone, 14)"
    by (simp add: env_with_def)
  show ?thesis
    using direct_execution_invokes_once [OF h1 f1 f2 f3 hm ha hb] by (simp add: initial_state_def)
qed

text \<open>
  C2, as stated, fails: a library import (\<open>__name__\<close> is \<open>tensorboard.__main__\<close>) binds
  more than the forwarded name. After the body the name \<open>division\<close> is bound, which the
  namespace "initial namespace plus \<open>run_main\<close>" does not hold.
\<close>

theorem library_import_only_binds_run_main_counterexample:
  "map_of (globals (snd (module_body (env_with (Inr PyNone)) (initial_state ''tensorboard.__main__''))))
      ''division'' = Some (PyFeature ''division'')
   \<and> ((map_of (globals (initial_state ''tensorboard.__main__'')))(''run_main'' \<mapsto> PyFunc 0))
      ''division'' = None"
proof -
  have "globals (snd (module_body (env_with (Inr PyNone)) (initial_state ''tensorboard.__main__''))) =
      initialised main_module (PyFunc 0) (globals (initial_state ''tensorboard.__main__''))"
    by (rule env_with_globals)
  then show ?thesis
    by (simp add: map_of_initialised initial_state_def)
qed

text \<open>
  C2, amended. When the module is imported as a library (\<open>__name__\<close> is bound to anything
  but \<open>__main__\<close>), \<open>run_main\<close> is never invoked: the body makes no call, whatever the
  imports do. When moreover the imports of lines 17 to 21 succeed and the collaborator has
  a \<open>run_main\<close> attribute \<open>v\<close>, the body ends normally; the world is the one those four
  import statements leave (the loading of \<open>__future__\<close> and of the collaborator are the
  only effects outside the namespace); and the namespace changes exactly so: \<open>__doc__\<close>,
  the three \<open>__future__\<close> names and \<open>run_main\<close> are bound, \<open>_main\<close> is not bound, and
  every other name is as before.
\<close>

theorem library_import_effects:
  assumes "map_of (globals s) ''__name__'' = Some n"
    and "n \<noteq> PyStr ''__main__''"
  shows "calls (snd (module_body env s)) = calls s
    \<and> (\<forall>w1 w2 w3 w4 m v.
         import_from env ''__future__'' ''absolute_import'' (world s) =
           (Inr (PyFeature ''absolute_import''), w1) \<longrightarrow>
         import_from env ''__future__'' ''division'' w1 = (Inr (PyFeature ''division''), w2) \<longrightarrow>
         import_from env ''__future__'' ''print_function'' w2 =
           (Inr (PyFeature ''print_function''), w3) \<longrightarrow>
         import_from env ''tensorboard'' ''main'' w3 = (Inr m, w4) \<longrightarrow>
         get_attr m ''run_main'' = Inr v \<longrightarrow>
           fst (module_body env s) = Inr ()
           \<and> world (snd (module_body env s)) = w4
           \<and> map_of (globals (snd (module_body env s))) =
               (map_of (globals s))(''__doc__'' \<mapsto> PyStr docstring,
               ''absolute_import'' \<mapsto> PyFeature ''absolute_import'',
               ''division'' \<mapsto> PyFeature ''division'',
               ''print_function'' \<mapsto> PyFeature ''print_function'',
               ''run_main'' \<mapsto> v,
               ''_main'' := None))"
proof (intro conjI allI impI)
  show "calls (snd (module_body env s)) = calls s"
    using assms by (rule library_import_never_calls)
next
  fix w1 w2 w3 w4 m v
  assume loaded: "import_from env ''__future__'' ''absolute_import'' (world s) =
      (Inr (PyFeature ''absolute_import''), w1)"
    "import_from env ''__future__'' ''division'' w1 = (Inr (PyFeature ''division''), w2)"
    "import_from env ''__future__'' ''print_function'' w2 =
      (Inr (PyFeature ''print_function''), w3)"
    "import_from env ''tensorboard'' ''main'' w3 = (Inr m, w4)"
    "get_attr m ''run_main'' = Inr v"
  let ?t = "\<lparr>globals = initialised m v (globals s), calls = calls s, world = w4\<rparr>"
  have nm: "map_of (globals ?t) ''__name__'' = Some n"
    using assms(1) by (simp add: map_of_initialised)
  have "module_body env s = stmt_guard env ?t"
    using loaded by (rule body_init_ok)
  also have "\<dots> = (Inr (), ?t)"
    using nm assms(2) by (rule guard_library)
  finally have body: "module_body env s = (Inr (), ?t)" .
  show "fst (module_body env s) = Inr ()"
    by (simp add: body)
  show "world (snd (module_body env s)) = w4"
    by (simp add: body)
  show "map_of (globals (snd (module_body env s))) =
      (map_of (globals s))(''__doc__'' \<mapsto> PyStr docstring,
               ''absolute_import'' \<mapsto> PyFeature ''absolute_import'',
               ''division'' \<mapsto> PyFeature ''division'',
               ''print_function'' \<mapsto> PyFeature ''print_function'',
               ''run_main'' \<mapsto> v,
               ''_main'' := None)"
    by (simp add: body map_of_initialised)
qed

theorem library_import_effects_witness:
  "calls (snd (module_body (env_with (Inr PyNone)) (initial_state ''tensorboard.__main__''))) = []
   \<and> fst (module_body (env_with (Inr PyNone)) (initial_state ''tensorboard.__main__'')) = Inr ()
   \<and> world (snd (module_body (env_with (Inr PyNone)) (initial_state ''tensorboard.__main__''))) = 4
   \<and> map_of (globals (snd (module_body (env_with (Inr PyNone)) (initial_state ''tensorboard.__main__'')))) ''run_main'' = Some (PyFunc 0)
   \<and> map_of (globals (snd (module_body (env_with (Inr PyNone)) (initial_state ''tensorboard.__main__'')))) ''_main'' = None"
proof -
  have h1: "map_of (globals (initial_state ''tensorboard.__main__'')) ''__name__'' = Some (PyStr ''tensorboard.__main__'')"
    by (simp add: initial_state_def)
  have h2: "PyStr ''tensorboard.__main__'' \<noteq> PyStr ''__main__''"
    by simp
  have f1: "import_from (env_with (Inr PyNone)) ''__future__'' ''absolute_import'' (world (initial_state ''tensorboard.__main__'')) =
      (Inr (PyFeature ''absolute_import''), 1)"
    by (simp add: env_with_def initial_state_def)
  have f2: "import_from (env_with (Inr PyNone)) ''__future__'' ''division'' 1 = (Inr (PyFeature ''division''), 2)"
    by (simp add: env_with_def)
  have f3: "import_from (env_with (Inr PyNone)) ''__future__'' ''print_function'' 2 =
      (Inr (PyFeature ''print_function''), 3)"
    by (simp add: env_with_def)
  have hm: "import_from (env_with (Inr PyNone)) ''tensorboard'' ''main'' 3 = (Inr main_module, 4)"
    by (simp add: env_with_def)
  have ha: "get_attr main_module ''run_main'' = Inr (PyFunc 0)"
    by (simp add: get_attr_def main_module_def)
  note both = library_import_effects [OF h1 h2, of "(env_with (Inr PyNone))"]
  note frame = both [THEN conjunct2, rule_format, OF f1 f2 f3 hm ha]
  show ?thesis
    using both [THEN conjunct1] frame by (simp add: initial_state_def)
qed

text \<open>
  C3. Under direct execution, when the call of \<open>run_main\<close> raises the error \<open>E\<close>, the
  body ends with exactly \<open>E\<close>; the function has been called once (no retry) and the world
  is the one the failed call left (no recovery).
\<close>

theorem run_main_error_propagates:
  assumes "map_of (globals s) ''__name__'' = Some (PyStr ''__main__'')"
    and "import_from env ''__future__'' ''absolute_import'' (world s) =
      (Inr (PyFeature ''absolute_import''), w1)"
    and "import_from env ''__future__'' ''division'' w1 = (Inr (PyFeature ''division''), w2)"
    and "import_from env ''__future__'' ''print_function'' w2 =
      (Inr (PyFeature ''print_function''), w3)"
    and "import_from env ''tensorboard'' ''main'' w3 = (Inr m, w4)"
    and "get_attr m ''run_main'' = Inr (PyFunc f)"
    and "behaviour env f [] w4 = (Inl E, w5)"
  shows "fst (module_body env s) = Inl E
    \<and> calls (snd (module_body env s)) = calls s @ [(PyFunc f, [])]
    \<and> world (snd (module_body env s)) = w5"
proof -
  let ?t = "\<lparr>globals = initialised m (PyFunc f) (globals s), calls = calls s, world = w4\<rparr>"
  have beh: "behaviour env f [] (world ?t) = (Inl E, w5)"
    using assms(7) by simp
  have nm: "map_of (globals ?t) ''__name__'' = Some (PyStr ''__main__'')"
    using assms(1) by (simp add: map_of_initialised)
  have rm: "map_of (globals ?t) ''run_main'' = Some (PyFunc f)"
    by (simp add: map_of_initialised)
  have "module_body env s = stmt_guard env ?t"
    using assms(2-6) by (rule body_init_ok)
  also note guard_direct [OF nm rm beh]
  finally show ?thesis by simp
qed

theorem run_main_error_propagates_witness:
  "fst (module_body (env_with (Inl (Exception ''boom''))) (initial_state ''__main__'')) = Inl (Exception ''boom'')
   \<and> calls (snd (module_body (env_with (Inl (Exception ''boom''))) (initial_state ''__main__''))) = [(PyFunc 0, [])]
   \<and> world (snd (module_body (env_with (Inl (Exception ''boom''))) (initial_state ''__main__''))) = 14"
proof -
  have h1: "map_of (globals (initial_state ''__main__'')) ''__name__'' = Some (PyStr ''__main__'')"
    by (simp add: initial_state_def)
  have f1: "import_from (env_with (Inl (Exception ''boom''))) ''__future__'' ''absolute_import'' (world (initial_state ''__main__'')) =
      (Inr (PyFeature ''absolute_import''), 1)"
    by (simp add: env_with_def initial_state_def)
  have f2: "import_from (env_with (Inl (Exception ''boom''))) ''__future__'' ''division'' 1 = (Inr (PyFeature ''division''), 2)"
    by (simp add: env_with_def)
  have f3: "import_from (env_with (Inl (Exception ''boom''))) ''__future__'' ''print_function'' 2 =
      (Inr (PyFeature ''print_function''), 3)"
    by (simp add: env_with_def)
  have hm: "import_from (env_with (Inl (Exception ''boom''))) ''tensorboard'' ''main'' 3 = (Inr main_module, 4)"
    by (simp add: env_with_def)
  have ha: "get_attr main_module ''run_main'' = Inr (PyFunc 0)"
    by (simp add: get_attr_def main_module_def)
  have hb: "behaviour (env_with (Inl (Exception ''boom''))) 0 [] 4 = (Inl (Exception ''boom''), 14)"
    by (simp add: env_with_def)
  show ?thesis
    using run_main_error_propagates [OF h1 f1 f2 f3 hm ha hb] by (simp add: initial_state_def)
qed

text \<open>
  C4, as stated, fails: with a \<open>run_main\<close> that returns 3 under direct execution, the
  exit status is not 3.
\<close>

theorem exit_status_is_return_value_counterexample:
  "behaviour (env_with (Inr (PyInt 3))) 0 [] 4 = (Inr (PyInt 3), 14)
   \<and> exit_status (fst (module_body (env_with (Inr (PyInt 3))) (initial_state ''__main__''))) \<noteq> 3"
proof -
  have "behaviour (env_with (Inr (PyInt 3))) 0 [] 4 = (Inr (PyInt 3), 14)"
    by (simp add: env_with_def)
  moreover have "fst (module_body (env_with (Inr (PyInt 3))) (initial_state ''__main__'')) = Inr ()"
    by (simp add: env_with_direct)
  ultimately show ?thesis
    by (simp add: exit_status_def)
qed

text \<open>
  C4, amended. Under direct execution, whatever value \<open>V\<close> the call of \<open>run_main\<close>
  returns, the body drops it: the body ends normally, the exit status is 0, the function
  has been called once, the world is the one the call left, and the namespace is the
  initialised one, none of which depends on \<open>V\<close>.
\<close>

theorem run_main_value_discarded:
  assumes "map_of (globals s) ''__name__'' = Some (PyStr ''__main__'')"
    and "import_from env ''__future__'' ''absolute_import'' (world s) =
      (Inr (PyFeature ''absolute_import''), w1)"
    and "import_from env ''__future__'' ''division'' w1 = (Inr (PyFeature ''division''), w2)"
    and "import_from env ''__future__'' ''print_function'' w2 =
      (Inr (PyFeature ''print_function''), w3)"
    and "import_from env ''tensorboard'' ''main'' w3 = (Inr m, w4)"
    and "get_attr m ''run_main'' = Inr (PyFunc f)"
    and "behaviour env f [] w4 = (Inr V, w5)"
  shows "fst (module_body env s) = Inr ()
    \<and> exit_status (fst (module_body env s)) = 0
    \<and> calls (snd (module_body env s)) = calls s @ [(PyFunc f, [])]
    \<and> world (snd (module_body env s)) = w5
    \<and> map_of (globals (snd (module_body env s))) =
        (map_of (globals s))(''__doc__'' \<mapsto> PyStr docstring,
           ''absolute_import'' \<mapsto> PyFeature ''absolute_import'',
           ''division'' \<mapsto> PyFeature ''division'',
           ''print_function'' \<mapsto> PyFeature ''print_function'',
           ''run_main'' \<mapsto> PyFunc f,
           ''_main'' := None)"
proof -
  let ?t = "\<lparr>globals = initialised m (PyFunc f) (globals s), calls = calls s, world = w4\<rparr>"
  have beh: "behaviour env f [] (world ?t) = (Inr V, w5)"
    using assms(7) by simp
  have nm: "map_of (globals ?t) ''__name__'' = Some (PyStr ''__main__'')"
    using assms(1) by (simp add: map_of_initialised)
  have rm: "map_of (globals ?t) ''run_main'' = Some (PyFunc f)"
    by (simp add: map_of_initialised)
  have "module_body env s = stmt_guard env ?t"
    using assms(2-6) by (rule body_init_ok)
  also note guard_direct [OF nm rm beh]
  finally show ?thesis
    by (simp add: exit_status_def map_of_initialised)
qed

theorem run_main_value_discarded_witness:
  "fst (module_body (env_with (Inr (PyInt 3))) (initial_state ''__main__'')) = Inr ()
   \<and> exit_status (fst (module_body (env_with (Inr (PyInt 3))) (initial_state ''__main__''))) = 0
   \<and> calls (snd (module_body (env_with (Inr (PyInt 3))) (initial_state ''__main__''))) = [(PyFunc 0, [])]
   \<and> world (snd (module_body (env_with (Inr (PyInt 3))) (initial_state ''__main__''))) = 14"
proof -
  have h1: "map_of (globals (initial_state ''__main__'')) ''__name__'' = Some (PyStr ''__main__'')"
    by (simp add: initial_state_def)
  have f1: "import_from (env_with (Inr (PyInt 3))) ''__future__'' ''absolute_import'' (world (initial_state ''__main__'')) =
      (Inr (PyFeature ''absolute_import''), 1)"
    by (simp add: env_with_def initial_state_def)
  have f2: "import_from (env_with (Inr (PyInt 3))) ''__future__'' ''division'' 1 = (Inr (PyFeature ''division''), 2)"
    by (simp add: env_with_def)
  have f3: "import_from (env_with (Inr (PyInt 3))) ''__future__'' ''print_function'' 2 =
      (Inr (PyFeature ''print_function''), 3)"
    by (simp add: env_with_def)
  have hm: "import_from (env_with (Inr (PyInt 3))) ''tensorboard'' ''main'' 3 = (Inr main_module, 4)"
    by (simp add: env_with_def)
  have ha: "get_attr main_module ''run_main'' = Inr (PyFunc 0)"
    by (simp add: get_attr_def main_module_def)
  have hb: "behaviour (env_with (Inr (PyInt 3))) 0 [] 4 = (Inr (PyInt 3), 14)"
    by (simp add: env_with_def)
  show ?thesis
    using run_main_value_discarded [OF h1 f1 f2 f3 hm ha hb]
    by (simp add: initial_state_def exit_status_def)
qed

text \<open>
  C5. After initialisation the module keeps no reference to the collaborator's module
  object \<open>m\<close>: \<open>_main\<close> is unbound, and if no entry of the namespace held \<open>m\<close> before the
  body ran, none holds it afterwards. Deleting \<open>_main\<close> leaves \<open>run_main\<close> bound to the
  collaborator's \<open>v\<close>, and \<open>run_main()\<close> still invokes \<open>v\<close>.
\<close>

theorem intermediate_reference_deleted:
  assumes "import_from env ''__future__'' ''absolute_import'' (world s) =
      (Inr (PyFeature ''absolute_import''), w1)"
    and "import_from env ''__future__'' ''division'' w1 = (Inr (PyFeature ''division''), w2)"
    and "import_from env ''__future__'' ''print_function'' w2 =
      (Inr (PyFeature ''print_function''), w3)"
    and "import_from env ''tensorboard'' ''main'' w3 = (Inr m, w4)"
    and "get_attr m ''run_main'' = Inr v"
    and "m \<notin> snd ` set (globals s)"
  shows "map_of (globals (snd (module_body env s))) ''_main'' = None
    \<and> m \<notin> snd ` set (globals (snd (module_body env s)))
    \<and> map_of (globals (snd (module_body env s))) ''run_main'' = Some v
    \<and> invoke_name env ''run_main'' (snd (module_body env s)) = call env v [] (snd (module_body env s))"
proof -
  let ?s' = "snd (module_body env s)"
  have g: "globals ?s' = initialised m v (globals s)"
    using assms(1-5) by (rule body_init_globals)
  have unbound: "map_of (globals ?s') ''_main'' = None"
    by (simp add: g map_of_initialised)
  have bound: "map_of (globals ?s') ''run_main'' = Some v"
    by (simp add: g map_of_initialised)
  obtain nm attrs where m: "m = PyModule nm attrs"
    using attr_is_module [OF assms(5)] by blast
  have "v \<noteq> m"
    using assms(5) by (rule attr_not_self)
  with m assms(6) values_initialised [of m v "globals s"]
  have "m \<notin> snd ` set (globals ?s')"
    unfolding g by auto
  with unbound bound invoke_bound [OF bound] show ?thesis
    by simp
qed

theorem intermediate_reference_deleted_witness:
  "map_of (globals (snd (module_body (env_with (Inr PyNone)) (initial_state ''tensorboard.__main__'')))) ''_main'' = None
   \<and> main_module \<notin> snd ` set (globals (snd (module_body (env_with (Inr PyNone)) (initial_state ''tensorboard.__main__''))))
   \<and> map_of (globals (snd (module_body (env_with (Inr PyNone)) (initial_state ''tensorboard.__main__'')))) ''run_main'' = Some (PyFunc 0)"
proof -
  have f1: "import_from (env_with (Inr PyNone)) ''__future__'' ''absolute_import'' (world (initial_state ''tensorboard.__main__'')) =
      (Inr (PyFeature ''absolute_import''), 1)"
    by (simp add: env_with_def initial_state_def)
  have f2: "import_from (env_with (Inr PyNone)) ''__future__'' ''division'' 1 = (Inr (PyFeature ''division''), 2)"
    by (simp add: env_with_def)
  have f3: "import_from (env_with (Inr PyNone)) ''__future__'' ''print_function'' 2 =
      (Inr (PyFeature ''print_function''), 3)"
    by (simp add: env_with_def)
  have hm: "import_from (env_with (Inr PyNone)) ''tensorboard'' ''main'' 3 = (Inr main_module, 4)"
    by (simp add: env_with_def)
  have ha: "get_attr main_module ''run_main'' = Inr (PyFunc 0)"
    by (simp add: get_attr_def main_module_def)
  have h3: "main_module \<notin> snd ` set (globals (initial_state ''tensorboard.__main__''))"
    by (simp add: initial_state_def main_module_def)
  show ?thesis
    using intermediate_reference_deleted [OF f1 f2 f3 hm ha h3] by simp
qed

text \<open>
  C6. If the collaborator cannot be loaded, the body ends with the error of the import
  statement of line 21, whether the module is run directly or imported, and no call has
  been made: the failure comes at load time, not when \<open>run_main\<close> is called.
\<close>

theorem collaborator_missing_fails_at_load:
  assumes "import_from env ''__future__'' ''absolute_import'' (world s) =
      (Inr (PyFeature ''absolute_import''), w1)"
    and "import_from env ''__future__'' ''division'' w1 = (Inr (PyFeature ''division''), w2)"
    and "import_from env ''__future__'' ''print_function'' w2 =
      (Inr (PyFeature ''print_function''), w3)"
    and "import_from env ''tensorboard'' ''main'' w3 = (Inl e, w4)"
  shows "fst (module_body env s) = Inl e \<and> calls (snd (module_body env s)) = calls s"
  by (simp add: body_import_fails [OF assms])

theorem collaborator_missing_fails_at_load_witness:
  "fst (module_body env_missing (initial_state ''tensorboard.__main__'')) = Inl (ImportError ''main'')
   \<and> calls (snd (module_body env_missing (initial_state ''tensorboard.__main__''))) = []"
proof -
  have f1: "import_from env_missing ''__future__'' ''absolute_import'' (world (initial_state ''tensorboard.__main__'')) =
      (Inr (PyFeature ''absolute_import''), 1)"
    by (simp add: env_missing_def initial_state_def)
  have f2: "import_from env_missing ''__future__'' ''division'' 1 = (Inr (PyFeature ''division''), 2)"
    by (simp add: env_missing_def)
  have f3: "import_from env_missing ''__future__'' ''print_function'' 2 =
      (Inr (PyFeature ''print_function''), 3)"
    by (simp add: env_missing_def)
  have h: "import_from env_missing ''tensorboard'' ''main'' 3 = (Inl (ImportError ''main''), 3)"
    by (simp add: env_missing_def)
  show ?thesis
    using collaborator_missing_fails_at_load [OF f1 f2 f3 h] by (simp add: initial_state_def)
qed

text \<open>
  C7, as stated, fails: after a library import the public names of the module are not
  just \<open>run_main\<close>.
\<close>

theorem single_public_symbol_counterexample:
  "public_names (globals (snd (module_body (env_with (Inr PyNone)) (initial_state ''tensorboard.__main__'')))) \<noteq> [''run_main'']"
proof -
  have "globals (snd (module_body (env_with (Inr PyNone)) (initial_state ''tensorboard.__main__''))) =
      initialised main_module (PyFunc 0) (globals (initial_state ''tensorboard.__main__''))"
    by (rule env_with_globals)
  then have "public_names (globals (snd (module_body (env_with (Inr PyNone)) (initial_state ''tensorboard.__main__'')))) =
      [''absolute_import'', ''division'', ''print_function'', ''run_main'']"
    by (simp only: public_names_concrete)
  then show ?thesis
    by (simp only: list.inject list.distinct simp_thms)
qed

text \<open>
  C7, amended. Importing the module adds exactly four public names to its namespace: the
  forwarded callable, under the name \<open>run_main\<close> that line 28 invokes, bound to the
  collaborator's \<open>v\<close>, and the three \<open>__future__\<close> names \<open>absolute_import\<close>,
  \<open>division\<close> and \<open>print_function\<close>; \<open>_main\<close> is not exposed.
\<close>

theorem public_names_after_import:
  assumes "import_from env ''__future__'' ''absolute_import'' (world s) =
      (Inr (PyFeature ''absolute_import''), w1)"
    and "import_from env ''__future__'' ''division'' w1 = (Inr (PyFeature ''division''), w2)"
    and "import_from env ''__future__'' ''print_function'' w2 =
      (Inr (PyFeature ''print_function''), w3)"
    and "import_from env ''tensorboard'' ''main'' w3 = (Inr m, w4)"
    and "get_attr m ''run_main'' = Inr v"
  shows "set (public_names (globals (snd (module_body env s)))) =
      set (public_names (globals s)) \<union> {''absolute_import'', ''division'', ''print_function'', ''run_main''}
    \<and> map_of (globals (snd (module_body env s))) ''run_main'' = Some v
    \<and> map_of (globals (snd (module_body env s))) ''_main'' = None"
proof -
  have g: "globals (snd (module_body env s)) = initialised m v (globals s)"
    using assms by (rule body_init_globals)
  show ?thesis
    unfolding g by (simp add: public_names_initialised map_of_initialised)
qed

theorem public_names_after_import_witness:
  "set (public_names (globals (snd (module_body (env_with (Inr PyNone)) (initial_state ''tensorboard.__main__''))))) =
      set [] \<union> {''absolute_import'', ''division'', ''print_function'', ''run_main''}
   \<and> map_of (globals (snd (module_body (env_with (Inr PyNone)) (initial_state ''tensorboard.__main__'')))) ''run_main'' = Some (PyFunc 0)
   \<and> map_of (globals (snd (module_body (env_with (Inr PyNone)) (initial_state ''tensorboard.__main__'')))) ''_main'' = None"
proof -
  have f1: "import_from (env_with (Inr PyNone)) ''__future__'' ''absolute_import'' (world (initial_state ''tensorboard.__main__'')) =
      (Inr (PyFeature ''absolute_import''), 1)"
    by (simp add: env_with_def initial_state_def)
  have f2: "import_from (env_with (Inr PyNone)) ''__future__'' ''division'' 1 = (Inr (PyFeature ''division''), 2)"
    by (simp add: env_with_def)
  have f3: "import_from (env_with (Inr PyNone)) ''__future__'' ''print_function'' 2 =
      (Inr (PyFeature ''print_function''), 3)"
    by (simp add: env_with_def)
  have hm: "import_from (env_with (Inr PyNone)) ''tensorboard'' ''main'' 3 = (Inr main_module, 4)"
    by (simp add: env_with_def)
  have ha: "get_attr main_module ''run_main'' = Inr (PyFunc 0)"
    by (simp add: get_attr_def main_module_def)
  have h3: "public_names (globals (initial_state ''tensorboard.__main__'')) = []"
    by (simp add: public_names_def initial_state_def is_public_def)
  show ?thesis
    using public_names_after_import [OF f1 f2 f3 hm ha] unfolding h3 .
qed

text \<open>
  C8. The module's \<open>run_main\<close> is the very object the collaborator's module holds as
  \<open>run_main\<close>, so in every state with the module's final namespace the call
  \<open>run_main()\<close> does exactly what the direct call \<open>m.run_main()\<close> on the collaborator's
  module does: same outcome, same calls, same world.
\<close>

theorem shim_run_main_is_collaborators:
  assumes "import_from env ''__future__'' ''absolute_import'' (world s) =
      (Inr (PyFeature ''absolute_import''), w1)"
    and "import_from env ''__future__'' ''division'' w1 = (Inr (PyFeature ''division''), w2)"
    and "import_from env ''__future__'' ''print_function'' w2 =
      (Inr (PyFeature ''print_function''), w3)"
    and "import_from env ''tensorboard'' ''main'' w3 = (Inr m, w4)"
    and "get_attr m ''run_main'' = Inr v"
    and "globals t = globals (snd (module_body env s))"
  shows "map_of (globals (snd (module_body env s))) ''run_main'' = Some v
    \<and> invoke_name env ''run_main'' t = invoke_attr env m ''run_main'' t"
proof -
  have g: "globals (snd (module_body env s)) = initialised m v (globals s)"
    using assms(1-5) by (rule body_init_globals)
  have bound: "map_of (globals (snd (module_body env s))) ''run_main'' = Some v"
    by (simp add: g map_of_initialised)
  then have "map_of (globals t) ''run_main'' = Some v"
    by (simp add: assms(6))
  then have "invoke_name env ''run_main'' t = call env v [] t"
    by (rule invoke_bound)
  also have "\<dots> = invoke_attr env m ''run_main'' t"
    using assms(5) by (rule invoke_attr_ok [symmetric])
  finally show ?thesis
    using bound by simp
qed

theorem shim_run_main_is_collaborators_witness:
  "map_of (globals (snd (module_body (env_with (Inr (PyInt 3))) (initial_state ''tensorboard.__main__'')))) ''run_main'' = Some (PyFunc 0)
   \<and> invoke_name (env_with (Inr (PyInt 3))) ''run_main'' (snd (module_body (env_with (Inr (PyInt 3))) (initial_state ''tensorboard.__main__''))) =
      invoke_attr (env_with (Inr (PyInt 3))) main_module ''run_main'' (snd (module_body (env_with (Inr (PyInt 3))) (initial_state ''tensorboard.__main__'')))"
proof -
  have f1: "import_from (env_with (Inr (PyInt 3))) ''__future__'' ''absolute_import'' (world (initial_state ''tensorboard.__main__'')) =
      (Inr (PyFeature ''absolute_import''), 1)"
    by (simp add: env_with_def initial_state_def)
  have f2: "import_from (env_with (Inr (PyInt 3))) ''__future__'' ''division'' 1 = (Inr (PyFeature ''division''), 2)"
    by (simp add: env_with_def)
  have f3: "import_from (env_with (Inr (PyInt 3))) ''__future__'' ''print_function'' 2 =
      (Inr (PyFeature ''print_function''), 3)"
    by (simp add: env_with_def)
  have hm: "import_from (env_with (Inr (PyInt 3))) ''tensorboard'' ''main'' 3 = (Inr main_module, 4)"
    by (simp add: env_with_def)
  have ha: "get_attr main_module ''run_main'' = Inr (PyFunc 0)"
    by (simp add: get_attr_def main_module_def)
  show ?thesis
    using shim_run_main_is_collaborators [OF f1 f2 f3 hm ha refl] .
qed

text \<open>
  C9. If loading the collaborator fails, \<open>run_main\<close> is not bound: a namespace without
  \<open>run_main\<close> before the body is still without it in the state the failure leaves.
\<close>

theorem import_failure_leaves_run_main_unbound:
  assumes "import_from env ''__future__'' ''absolute_import'' (world s) =
      (Inr (PyFeature ''absolute_import''), w1)"
    and "import_from env ''__future__'' ''division'' w1 = (Inr (PyFeature ''division''), w2)"
    and "import_from env ''__future__'' ''print_function'' w2 =
      (Inr (PyFeature ''print_function''), w3)"
    and "import_from env ''tensorboard'' ''main'' w3 = (Inl e, w4)"
    and "map_of (globals s) ''run_main'' = None"
  shows "map_of (globals (snd (module_body env s))) ''run_main'' = None"
  using assms(5) by (simp add: body_import_fails [OF assms(1-4)] map_of_prelude)

theorem import_failure_leaves_run_main_unbound_witness:
  "map_of (globals (snd (module_body env_missing (initial_state ''__main__'')))) ''run_main'' = None"
proof -
  have f1: "import_from env_missing ''__future__'' ''absolute_import'' (world (initial_state ''__main__'')) =
      (Inr (PyFeature ''absolute_import''), 1)"
    by (simp add: env_missing_def initial_state_def)
  have f2: "import_from env_missing ''__future__'' ''division'' 1 = (Inr (PyFeature ''division''), 2)"
    by (simp add: env_missing_def)
  have f3: "import_from env_missing ''__future__'' ''print_function'' 2 =
      (Inr (PyFeature ''print_function''), 3)"
    by (simp add: env_missing_def)
  have h1: "import_from env_missing ''tensorboard'' ''main'' 3 = (Inl (ImportError ''main''), 3)"
    by (simp add: env_missing_def)
  have h2: "map_of (globals (initial_state ''__main__'')) ''run_main'' = None"
    by (simp add: initial_state_def)
  show ?thesis
    using import_failure_leaves_run_main_unbound [OF f1 f2 f3 h1 h2] .
qed

text \<open>
  C10. The body is deterministic in its execution context: two runs from the same initial
  state, in environments that agree on the builtin \<open>__name__\<close>, on the outcome of loading
  the collaborator (the same outcome, or two modules with the same \<open>run_main\<close>) and on
  the behaviour of the functions, give the same outcome, the same call sequence, the same
  final namespace and the same world.
\<close>

theorem module_body_deterministic:
  assumes "map_of (builtins env1) ''__name__'' = map_of (builtins env2) ''__name__''"
    and "import_from env1 ''__future__'' ''absolute_import'' (world s) =
      (Inr (PyFeature ''absolute_import''), w1)"
    and "import_from env1 ''__future__'' ''division'' w1 = (Inr (PyFeature ''division''), w2)"
    and "import_from env1 ''__future__'' ''print_function'' w2 =
      (Inr (PyFeature ''print_function''), w3)"
    and "import_from env2 ''__future__'' ''absolute_import'' (world s) =
      (Inr (PyFeature ''absolute_import''), w1)"
    and "import_from env2 ''__future__'' ''division'' w1 = (Inr (PyFeature ''division''), w2)"
    and "import_from env2 ''__future__'' ''print_function'' w2 =
      (Inr (PyFeature ''print_function''), w3)"
    and "import_from env1 ''tensorboard'' ''main'' w3 = (r1, w)"
    and "import_from env2 ''tensorboard'' ''main'' w3 = (r2, w)"
    and "r1 = r2 \<or>
      (\<exists>m1 m2 v. r1 = Inr m1 \<and> r2 = Inr m2
         \<and> get_attr m1 ''run_main'' = Inr v \<and> get_attr m2 ''run_main'' = Inr v)"
    and "behaviour env1 = behaviour env2"
  shows "module_body env1 s = module_body env2 s"
proof -
  note fut1 = assms(2-4) and fut2 = assms(5-7)
  have ok: "module_body env1 s = module_body env2 s"
    if a1: "r1 = Inr m1" and a2: "r2 = Inr m2"
      and g1: "get_attr m1 ''run_main'' = Inr v" and g2: "get_attr m2 ''run_main'' = Inr v"
    for m1 m2 v
  proof -
    let ?t = "\<lparr>globals = initialised m1 v (globals s), calls = calls s, world = w\<rparr>"
    have same: "initialised m2 v (globals s) = initialised m1 v (globals s)"
      by (simp add: initialised_alt)
    have rm: "map_of (globals ?t) ''run_main'' = Some v"
      by (simp add: map_of_initialised)
    have "module_body env1 s = stmt_guard env1 ?t"
      using fut1 assms(8) [unfolded a1] g1 by (rule body_init_ok)
    also have "\<dots> = stmt_guard env2 ?t"
      using assms(1,11) rm by (rule guard_env_cong)
    also have "\<dots> = module_body env2 s"
      using body_init_ok [OF fut2 assms(9) [unfolded a2] g2] by (simp add: same)
    finally show ?thesis .
  qed
  from assms(10) show ?thesis
  proof
    assume eq: "r1 = r2"
    show ?thesis
    proof (cases r2)
      case (Inl e)
      with eq assms(8,9) show ?thesis
        by (simp add: body_import_fails [OF fut1] body_import_fails [OF fut2])
    next
      case (Inr m)
      show ?thesis
      proof (cases "get_attr m ''run_main''")
        case (Inl e)
        with Inr eq assms(8,9) show ?thesis
          by (simp add: body_attr_fails [OF fut1] body_attr_fails [OF fut2])
      next
        case attr: (Inr v)
        from eq Inr have "r1 = Inr m" by simp
        then show ?thesis
          using Inr attr attr by (rule ok)
      qed
    qed
  next
    assume "\<exists>m1 m2 v. r1 = Inr m1 \<and> r2 = Inr m2
         \<and> get_attr m1 ''run_main'' = Inr v \<and> get_attr m2 ''run_main'' = Inr v"
    then show ?thesis
      using ok by blast
  qed
qed

theorem module_body_deterministic_witness:
  "module_body (env_with (Inr PyNone)) (initial_state ''__main__'') = module_body (env_other (Inr PyNone)) (initial_state ''__main__'')"
proof -
  have h1: "map_of (builtins (env_with (Inr PyNone))) ''__name__'' = map_of (builtins (env_other (Inr PyNone))) ''__name__''"
    by (simp add: env_with_def env_other_def)
  have f1: "import_from (env_with (Inr PyNone)) ''__future__'' ''absolute_import'' (world (initial_state ''__main__'')) =
      (Inr (PyFeature ''absolute_import''), 1)"
    by (simp add: env_with_def initial_state_def)
  have f2: "import_from (env_with (Inr PyNone)) ''__future__'' ''division'' 1 = (Inr (PyFeature ''division''), 2)"
    by (simp add: env_with_def)
  have f3: "import_from (env_with (Inr PyNone)) ''__future__'' ''print_function'' 2 =
      (Inr (PyFeature ''print_function''), 3)"
    by (simp add: env_with_def)
  have g1: "import_from (env_other (Inr PyNone)) ''__future__'' ''absolute_import'' (world (initial_state ''__main__'')) =
      (Inr (PyFeature ''absolute_import''), 1)"
    by (simp add: env_other_def initial_state_def)
  have g2: "import_from (env_other (Inr PyNone)) ''__future__'' ''division'' 1 = (Inr (PyFeature ''division''), 2)"
    by (simp add: env_other_def)
  have g3: "import_from (env_other (Inr PyNone)) ''__future__'' ''print_function'' 2 =
      (Inr (PyFeature ''print_function''), 3)"
    by (simp add: env_other_def)
  have h2: "import_from (env_with (Inr PyNone)) ''tensorboard'' ''main'' 3 = (Inr main_module, 4)"
    by (simp add: env_with_def)
  have h3: "import_from (env_other (Inr PyNone)) ''tensorboard'' ''main'' 3 = (Inr other_module, 4)"
    by (simp add: env_other_def)
  have a1: "get_attr main_module ''run_main'' = Inr (PyFunc 0)"
    by (simp add: get_attr_def main_module_def)
  have a2: "get_attr other_module ''run_main'' = Inr (PyFunc 0)"
    by (simp add: get_attr_def other_module_def)
  have h4: "Inr main_module = (Inr other_module :: exn + pyval) \<or>
      (\<exists>m1 m2 v. Inr main_module = (Inr m1 :: exn + pyval) \<and> Inr other_module = (Inr m2 :: exn + pyval)
         \<and> get_attr m1 ''run_main'' = Inr v \<and> get_attr m2 ''run_main'' = Inr v)"
    using a1 a2 by blast
  have h5: "behaviour (env_with (Inr PyNone)) = behaviour (env_other (Inr PyNone))"
    by (simp add: env_with_def env_other_def)
  show ?thesis
    using h1 f1 f2 f3 g1 g2 g3 h2 h3 h4 h5 by (rule module_body_deterministic)
qed

end
